theory Spec2Isabelle
  imports Main "HOL-Library.Word"
begin

section \<open>Data of the sidecar injector's certificate reconciliation\<close>

text \<open>
  The development follows \<^verbatim>\<open>sidecar-injector/cmd/sidecar-injector/main.go\<close>:
  the function \<^verbatim>\<open>patchCertLoop\<close>, the informer callback \<^verbatim>\<open>UpdateFunc\<close> it
  registers, the goroutine with the \<^verbatim>\<open>select\<close> loop it starts, and \<^verbatim>\<open>doPatch\<close>.

  A \<^verbatim>\<open>[]byte\<close> is a list of 8-bit words (\<^verbatim>\<open>bytes.Equal\<close> is list equality: it
  does not tell a nil slice from an empty one, and neither does the list). A Go
  \<^verbatim>\<open>error\<close> is the message it prints. A point in time and a \<^verbatim>\<open>time.Duration\<close>
  are integers counting nanoseconds.
\<close>

type_synonym bytes = "8 word list"

type_synonym time = int

datatype error = Error string

fun msg :: "error \<Rightarrow> string" where
  "msg (Error m) = m"

text \<open>The fields of the package variable \<^verbatim>\<open>flags\<close> that \<^verbatim>\<open>patchCertLoop\<close> reads.\<close>

record flags =
  kubeconfigFile :: string
  caCertFile :: string
  webhookConfigName :: string
  webhookName :: string

text \<open>
  The fields of \<^verbatim>\<open>v1beta1.MutatingWebhookConfiguration\<close> that the callback reads:
  the resource version of the object and, for each webhook entry, its name and the CA bundle
  of its client configuration.
\<close>

record WebhookClientConfig =
  CABundle :: bytes

record Webhook =
  Name :: string
  ClientConfig :: WebhookClientConfig

record MutatingWebhookConfiguration =
  ResourceVersion :: string
  Webhooks :: "Webhook list"

text \<open>
  What the surroundings answer when the code calls them, at the moment of one call of
  \<^verbatim>\<open>patchCertLoop\<close> or of one pass through the \<^verbatim>\<open>select\<close>: the clock, the
  client set constructor, the file system, the file watcher, and
  \<^verbatim>\<open>util.PatchMutatingWebhookConfig\<close>, whose body is in another package and is taken
  as a parameter (\<open>None\<close> is a nil error).
\<close>

record env =
  now :: time
  CreateClientset :: "string \<Rightarrow> error option"
  ReadFile :: "string \<Rightarrow> error + bytes"
  NewWatcher :: "error option"
  Watch :: "string \<Rightarrow> error option"
  PatchMutatingWebhookConfig :: "string \<Rightarrow> string \<Rightarrow> bytes \<Rightarrow> error option"

text \<open>
  What the code does to its surroundings, in program order: file reads and patch calls with
  their arguments and outcomes, the directory put under watch, log lines, timers created by
  \<^verbatim>\<open>time.After\<close> (with the duration), and a send on the channel \<^verbatim>\<open>shouldPatch\<close>.
\<close>

datatype effect =
    FileRead string "error + bytes"
  | WatchDir string
  | Patch string string bytes "error option"
  | Infof string
  | Errorf string
  | TimeAfter time
  | SendShouldPatch

text \<open>
  The two variables the goroutine of the loop works on: the captured \<^verbatim>\<open>caCertPem\<close>
  (shared with the informer callback) and the local \<^verbatim>\<open>delayedRetryC\<close>. A nil channel is
  \<open>None\<close>; the channel of \<^verbatim>\<open>time.After(d)\<close> is the instant at which it becomes
  ready.
\<close>

record loop_state =
  caCertPem :: bytes
  delayedRetryC :: "time option"

datatype select_case = DelayedRetryC | ShouldPatch | WatcherEvent

section \<open>The code\<close>

text \<open>\<^verbatim>\<open>const delayedRetryTime = time.Second\<close>\<close>

definition delayedRetryTime :: time where
  "delayedRetryTime = 1000000000"

text \<open>\<^verbatim>\<open>filepath.Split\<close> on a slash-separated path: the directory keeps its final slash.\<close>

definition filepath_Split :: "string \<Rightarrow> string \<times> string" where
  "filepath_Split path =
     (let file = rev (takeWhile (\<lambda>c. c \<noteq> CHR ''/'') (rev path))
      in (take (length path - length file) path, file))"

text \<open>
  \<^verbatim>\<open>doPatch\<close>: one call of the patcher with the configured names and the given
  bundle; the result is \<^verbatim>\<open>retry\<close>.
\<close>

definition doPatch :: "flags \<Rightarrow> env \<Rightarrow> bytes \<Rightarrow> bool \<times> effect list" where
  "doPatch fl e ca =
     (case PatchMutatingWebhookConfig e (webhookConfigName fl) (webhookName fl) ca of
        Some err \<Rightarrow>
          (True, [Patch (webhookConfigName fl) (webhookName fl) ca (Some err),
                  Errorf (''Patch webhook failed: '' @ msg err)])
      | None \<Rightarrow>
          (False, [Patch (webhookConfigName fl) (webhookName fl) ca None]))"

text \<open>
  The \<^verbatim>\<open>range\<close> loop of \<^verbatim>\<open>UpdateFunc\<close> over the webhook entries of the new object: at
  the first entry with the target name and a bundle other than \<^verbatim>\<open>caCertPem\<close> it logs, sends
  and breaks.
\<close>

fun range_Webhooks :: "flags \<Rightarrow> bytes \<Rightarrow> Webhook list \<Rightarrow> effect list" where
  "range_Webhooks fl ca [] = []"
| "range_Webhooks fl ca (w # ws) =
     (if Name w = webhookName fl \<and> CABundle (ClientConfig w) \<noteq> ca
      then [Infof ''Detected a change in CABundle, patching MutatingWebhookConfiguration again'',
            SendShouldPatch]
      else range_Webhooks fl ca ws)"

text \<open>
  \<^verbatim>\<open>UpdateFunc\<close>, the informer's callback. It reads the variable \<^verbatim>\<open>caCertPem\<close> of
  the enclosing function, which is the one the loop assigns.
\<close>

definition UpdateFunc ::
  "flags \<Rightarrow> loop_state \<Rightarrow> MutatingWebhookConfiguration \<Rightarrow> MutatingWebhookConfiguration
     \<Rightarrow> effect list" where
  "UpdateFunc fl s oldConfig newConfig =
     (if ResourceVersion oldConfig \<noteq> ResourceVersion newConfig
      then range_Webhooks fl (caCertPem s) (Webhooks newConfig)
      else [])"

text \<open>
  \<^verbatim>\<open>patchCertLoop\<close> up to the start of the goroutines: it returns an error, or else the
  bundle read and the flag \<^verbatim>\<open>retry\<close> that the goroutine of the loop starts from.
\<close>

definition patchCertLoop :: "flags \<Rightarrow> env \<Rightarrow> (error + bytes \<times> bool) \<times> effect list" where
  "patchCertLoop fl e =
     (case CreateClientset e (kubeconfigFile fl) of
        Some err \<Rightarrow> (Inl err, [])
      | None \<Rightarrow>
     (case ReadFile e (caCertFile fl) of
        Inl err \<Rightarrow> (Inl err, [FileRead (caCertFile fl) (Inl err)])
      | Inr ca \<Rightarrow>
     (case NewWatcher e of
        Some err \<Rightarrow> (Inl err, [FileRead (caCertFile fl) (Inr ca)])
      | None \<Rightarrow>
     (let watchDir = fst (filepath_Split (caCertFile fl)) in
      case Watch e watchDir of
        Some err \<Rightarrow>
          (Inl (Error (''could not watch '' @ caCertFile fl @ '': '' @ msg err)),
           [FileRead (caCertFile fl) (Inr ca), WatchDir watchDir])
      | None \<Rightarrow>
     (let r = PatchMutatingWebhookConfig e (webhookConfigName fl) (webhookName fl) ca;
          retry = (r \<noteq> None)
      in (Inr (ca, retry),
          [FileRead (caCertFile fl) (Inr ca), WatchDir watchDir,
           Patch (webhookConfigName fl) (webhookName fl) ca r]))))))"

text \<open>The first statements of the goroutine, before the \<^verbatim>\<open>for\<close>.\<close>

definition loop_init :: "env \<Rightarrow> bytes \<times> bool \<Rightarrow> loop_state \<times> effect list" where
  "loop_init e start =
     (if snd start
      then (\<lparr>caCertPem = fst start, delayedRetryC = Some (now e + delayedRetryTime)\<rparr>,
            [TimeAfter delayedRetryTime])
      else (\<lparr>caCertPem = fst start, delayedRetryC = None\<rparr>, []))"

text \<open>The body of \<^verbatim>\<open>case <-delayedRetryC\<close>.\<close>

definition case_delayedRetryC :: "flags \<Rightarrow> env \<Rightarrow> loop_state \<Rightarrow> loop_state \<times> effect list" where
  "case_delayedRetryC fl e s =
     (let (retry, fx) = doPatch fl e (caCertPem s) in
      if retry
      then (s\<lparr>delayedRetryC := Some (now e + delayedRetryTime)\<rparr>, fx @ [TimeAfter delayedRetryTime])
      else (s\<lparr>delayedRetryC := None\<rparr>, fx @ [Infof ''Retried patch succeeded'']))"

text \<open>The body of \<^verbatim>\<open>case <-shouldPatch\<close>.\<close>

definition case_shouldPatch :: "flags \<Rightarrow> env \<Rightarrow> loop_state \<Rightarrow> loop_state \<times> effect list" where
  "case_shouldPatch fl e s =
     (let (retry, fx) = doPatch fl e (caCertPem s) in
      if retry
      then (if delayedRetryC s = None
            then (s\<lparr>delayedRetryC := Some (now e + delayedRetryTime)\<rparr>,
                  fx @ [TimeAfter delayedRetryTime])
            else (s, fx))
      else (s\<lparr>delayedRetryC := None\<rparr>, fx))"

text \<open>The body of \<^verbatim>\<open>case <-watcher.Event\<close>.\<close>

definition case_watcher_Event :: "flags \<Rightarrow> env \<Rightarrow> loop_state \<Rightarrow> loop_state \<times> effect list" where
  "case_watcher_Event fl e s =
     (case ReadFile e (caCertFile fl) of
        Inr b \<Rightarrow>
          (let pre = [FileRead (caCertFile fl) (Inr b),
                      Infof ''Detected a change in CABundle (via secret), patching MutatingWebhookConfiguration again''];
               s1 = s\<lparr>caCertPem := b\<rparr>;
               (retry, fx) = doPatch fl e (caCertPem s1)
           in if retry
              then (if delayedRetryC s1 = None
                    then (s1\<lparr>delayedRetryC := Some (now e + delayedRetryTime)\<rparr>,
                          pre @ fx @ [TimeAfter delayedRetryTime,
                                      Infof ''Patch failed - retrying every 1s until success''])
                    else (s1, pre @ fx))
              else (s1\<lparr>delayedRetryC := None\<rparr>, pre @ fx))
      | Inl err \<Rightarrow>
          (s, [FileRead (caCertFile fl) (Inl err),
               Errorf (''CA bundle file read error: '' @ msg err)]))"

text \<open>One pass through the \<^verbatim>\<open>select\<close>, the case taken being given.\<close>

fun select_body :: "flags \<Rightarrow> env \<Rightarrow> select_case \<Rightarrow> loop_state \<Rightarrow> loop_state \<times> effect list" where
  "select_body fl e DelayedRetryC s = case_delayedRetryC fl e s"
| "select_body fl e ShouldPatch s = case_shouldPatch fl e s"
| "select_body fl e WatcherEvent s = case_watcher_Event fl e s"

text \<open>
  A case of the \<^verbatim>\<open>select\<close> can be taken when its channel is ready. For the timer that is:
  the channel is not nil and its instant has come. The other two channels are fed from
  outside the loop.
\<close>

fun timer_ready :: "env \<Rightarrow> loop_state \<Rightarrow> bool" where
  "timer_ready e s = (case delayedRetryC s of None \<Rightarrow> False | Some d \<Rightarrow> d \<le> now e)"

text \<open>
  The goroutine of the loop from a given state on: the passes through the \<^verbatim>\<open>select\<close> in
  the order they are taken, each with the surroundings it meets.
\<close>

fun run :: "flags \<Rightarrow> (env \<times> select_case) list \<Rightarrow> loop_state \<Rightarrow> loop_state \<times> effect list" where
  "run fl [] s = (s, [])"
| "run fl (ec # evs) s =
     (let (s1, fx1) = select_body fl (fst ec) (snd ec) s;
          (s2, fx2) = run fl evs s1
      in (s2, fx1 @ fx2))"

text \<open>
  The whole of \<^verbatim>\<open>patchCertLoop\<close> and what its loop then does: setup in surroundings
  \<open>e0\<close>, start of the goroutine in \<open>e1\<close>, then the passes \<open>evs\<close>.
\<close>

definition execute ::
  "flags \<Rightarrow> env \<Rightarrow> env \<Rightarrow> (env \<times> select_case) list \<Rightarrow> (error + loop_state) \<times> effect list" where
  "execute fl e0 e1 evs =
     (case patchCertLoop fl e0 of
        (Inl err, fx) \<Rightarrow> (Inl err, fx)
      | (Inr start, fx) \<Rightarrow>
          (let (s0, fx0) = loop_init e1 start;
               (s, fx1) = run fl evs s0
           in (Inr s, fx @ fx0 @ fx1)))"

section \<open>Reading a trace of effects\<close>

fun is_io :: "effect \<Rightarrow> bool" where
  "is_io (FileRead p r) = True"
| "is_io (Patch c n b r) = True"
| "is_io x = False"

fun is_TimeAfter :: "effect \<Rightarrow> bool" where
  "is_TimeAfter (TimeAfter d) = True"
| "is_TimeAfter x = False"

text \<open>The bundle and the outcome of every patch call of a trace, in order.\<close>

fun patch_calls :: "effect list \<Rightarrow> (bytes \<times> error option) list" where
  "patch_calls [] = []"
| "patch_calls (Patch c n b r # fx) = (b, r) # patch_calls fx"
| "patch_calls (x # fx) = patch_calls fx"

text \<open>The bundle of the last patch call, and of the last one that returned no error.\<close>

definition last_attempted :: "effect list \<Rightarrow> bytes option" where
  "last_attempted fx =
     (case rev (patch_calls fx) of [] \<Rightarrow> None | br # rest \<Rightarrow> Some (fst br))"

definition last_written :: "effect list \<Rightarrow> bytes option" where
  "last_written fx =
     (case rev (filter (\<lambda>br. snd br = None) (patch_calls fx)) of
        [] \<Rightarrow> None | br # rest \<Rightarrow> Some (fst br))"

text \<open>
  The condition for a request as the specification words it, with the bundle that the
  patcher wrote last as a parameter; it is compared with \<open>UpdateFunc\<close> below.
\<close>

definition claimed_request ::
  "flags \<Rightarrow> bytes option \<Rightarrow> MutatingWebhookConfiguration \<Rightarrow> MutatingWebhookConfiguration \<Rightarrow> bool" where
  "claimed_request fl written oldConfig newConfig =
     (ResourceVersion oldConfig \<noteq> ResourceVersion newConfig \<and>
      list_ex (\<lambda>w. Name w = webhookName fl \<and> Some (CABundle (ClientConfig w)) \<noteq> written)
        (Webhooks newConfig))"

section \<open>The goroutines together\<close>

text \<open>
  \<^verbatim>\<open>patchCertLoop\<close> starts two goroutines: \<^verbatim>\<open>go controller.Run(stopCh)\<close>, in which the
  informer calls \<open>UpdateFunc\<close>, and the anonymous function with the \<^verbatim>\<open>for { select }\<close>.
  The file watcher of \<^verbatim>\<open>fsnotify.NewWatcher()\<close> runs beside them and is never closed.

  The channel \<^verbatim>\<open>shouldPatch := make(chan struct{})\<close> has no buffer, and
  \<^verbatim>\<open>shouldPatch <- struct{}{}\<close> is a plain send: the sender stays in it until the loop
  takes \<^verbatim>\<open>case <-shouldPatch\<close>. The loop is either at its \<^verbatim>\<open>select\<close> or inside the
  body of the case it took; the informer is between two callbacks, inside the send, or has
  returned.
\<close>

datatype loop_phase = Selecting | Handling select_case

datatype informer_phase = Idle | Sending | Returned

record system =
  loop :: loop_state
  phase :: loop_phase
  informer :: informer_phase
  stopCh_closed :: bool
  watcher_Event :: nat

text \<open>
  What can happen next: the informer delivers an update to the callback; the
  \<^verbatim>\<open>select\<close> takes a case; the body of the case taken runs to its end; the file watcher
  has an event to deliver; the stop channel is closed.
\<close>

datatype action =
    Update MutatingWebhookConfiguration MutatingWebhookConfiguration
  | Receive select_case
  | Finish
  | FsEvent
  | CloseStop

text \<open>
  A case of the \<^verbatim>\<open>select\<close> is ready when the timer is due, when the informer is inside
  the send, when the file watcher holds an event. The \<^verbatim>\<open>select\<close> has these three cases
  only: \<^verbatim>\<open>stopCh\<close> is passed to \<^verbatim>\<open>controller.Run\<close> and read nowhere else.
\<close>

fun ready :: "env \<Rightarrow> system \<Rightarrow> select_case \<Rightarrow> bool" where
  "ready e sys DelayedRetryC = timer_ready e (loop sys)"
| "ready e sys ShouldPatch = (informer sys = Sending)"
| "ready e sys WatcherEvent = (0 < watcher_Event sys)"

fun received :: "select_case \<Rightarrow> system \<Rightarrow> system" where
  "received DelayedRetryC sys = sys"
| "received ShouldPatch sys = sys\<lparr>informer := (if stopCh_closed sys then Returned else Idle)\<rparr>"
| "received WatcherEvent sys = sys\<lparr>watcher_Event := watcher_Event sys - 1\<rparr>"

text \<open>
  One step of the whole; \<open>None\<close> when the action cannot happen in this state. What
  the two libraries do is taken as follows: the informer calls the callback from one
  goroutine, so it delivers nothing while a callback is inside the send, and it delivers
  nothing once the stop channel is closed; the file watcher's events are counted as they
  wait for the loop. The steps of the loop itself, \<open>Receive\<close> and \<open>Finish\<close>, are the
  \<^verbatim>\<open>select\<close> and the bodies of its cases as written. A body is one step: its
  assignment to \<^verbatim>\<open>caCertPem\<close> becomes visible to the callback when the body ends, so
  of the callbacks that run during the patch call of a file event only those that still
  read the bundle held before are covered, and events of the file watcher that the
  library merges are counted one by one.
\<close>

fun step :: "flags \<Rightarrow> env \<Rightarrow> action \<Rightarrow> system \<Rightarrow> (system \<times> effect list) option" where
  "step fl e (Update oldConfig newConfig) sys =
     (if informer sys = Idle \<and> \<not> stopCh_closed sys
      then (let fx = UpdateFunc fl (loop sys) oldConfig newConfig
            in if SendShouldPatch \<in> set fx
               then Some (sys\<lparr>informer := Sending\<rparr>, fx)
               else Some (sys, fx))
      else None)"
| "step fl e (Receive c) sys =
     (if phase sys = Selecting \<and> ready e sys c
      then Some ((received c sys)\<lparr>phase := Handling c\<rparr>, [])
      else None)"
| "step fl e Finish sys =
     (case phase sys of
        Selecting \<Rightarrow> None
      | Handling c \<Rightarrow>
          (let (s', fx) = select_body fl e c (loop sys)
           in Some (sys\<lparr>loop := s', phase := Selecting\<rparr>, fx)))"
| "step fl e FsEvent sys = Some (sys\<lparr>watcher_Event := watcher_Event sys + 1\<rparr>, [])"
| "step fl e CloseStop sys =
     (if stopCh_closed sys then None
      else Some (sys\<lparr>stopCh_closed := True,
                      informer := (if informer sys = Idle then Returned else informer sys)\<rparr>, []))"

text \<open>A sequence of steps, each in its surroundings; the effects are collected.\<close>

fun steps :: "flags \<Rightarrow> (env \<times> action) list \<Rightarrow> system \<Rightarrow> (system \<times> effect list) option" where
  "steps fl [] sys = Some (sys, [])"
| "steps fl (ea # rest) sys =
     (case step fl (fst ea) (snd ea) sys of
        None \<Rightarrow> None
      | Some (sys1, fx1) \<Rightarrow>
          (case steps fl rest sys1 of
             None \<Rightarrow> None
           | Some (sys2, fx2) \<Rightarrow> Some (sys2, fx1 @ fx2)))"

text \<open>The state in which \<^verbatim>\<open>patchCertLoop\<close> leaves the goroutines it started.\<close>

definition started :: "loop_state \<Rightarrow> system" where
  "started s = \<lparr>loop = s, phase = Selecting, informer = Idle, stopCh_closed = False,
                watcher_Event = 0\<rparr>"

section \<open>Concrete inputs\<close>

text \<open>The defaults that \<^verbatim>\<open>init\<close> gives the flags.\<close>

definition default_flags :: flags where
  "default_flags =
     \<lparr>kubeconfigFile = '''',
      caCertFile = ''/etc/istio/certs/root-cert.pem'',
      webhookConfigName = ''istio-sidecar-injector'',
      webhookName = ''sidecar-injector.istio.io''\<rparr>"

text \<open>
  Surroundings in which the client set and the watcher can be set up, every read of a file
  gives \<open>file\<close> and every patch call returns \<open>answer\<close>, at clock reading \<open>t\<close>.
\<close>

definition world :: "time \<Rightarrow> error + bytes \<Rightarrow> error option \<Rightarrow> env" where
  "world t file answer =
     \<lparr>now = t,
      CreateClientset = (\<lambda>k. None),
      ReadFile = (\<lambda>p. file),
      NewWatcher = None,
      Watch = (\<lambda>d. None),
      PatchMutatingWebhookConfig = (\<lambda>c n b. answer)\<rparr>"

definition forbidden :: "error option" where
  "forbidden = Some (Error ''forbidden'')"

definition bundle_X :: bytes where
  "bundle_X = [88]"

definition bundle_Z :: bytes where
  "bundle_Z = [90]"

text \<open>A configuration whose only entry has the target name and carries \<open>b\<close>.\<close>

definition config_with :: "string \<Rightarrow> bytes \<Rightarrow> MutatingWebhookConfiguration" where
  "config_with rv b =
     \<lparr>ResourceVersion = rv,
      Webhooks = [\<lparr>Name = ''sidecar-injector.istio.io'', ClientConfig = \<lparr>CABundle = b\<rparr>\<rparr>]\<rparr>"

text \<open>
  A rotation that the cluster refuses: the setup reads \<open>bundle_X\<close> and patches it in; then
  the file holds \<open>bundle_Z\<close>, a file event arrives, and the patch call fails.
\<close>

definition refused_rotation :: "(error + loop_state) \<times> effect list" where
  "refused_rotation =
     execute default_flags (world 0 (Inr bundle_X) None) (world 1 (Inr bundle_X) None)
       [(world 5 (Inr bundle_Z) forbidden, WatcherEvent)]"

definition held_after_refusal :: loop_state where
  "held_after_refusal = \<lparr>caCertPem = bundle_Z, delayedRetryC = Some 1000000005\<rparr>"

text \<open>The loop in the body of a file event while the informer has reached its send.\<close>

definition busy_with_file :: system where
  "busy_with_file =
     \<lparr>loop = \<lparr>caCertPem = bundle_X, delayedRetryC = None\<rparr>, phase = Handling WatcherEvent,
      informer = Sending, stopCh_closed = False, watcher_Event = 0\<rparr>"

section \<open>Facts about \<open>doPatch\<close>, the callback and the three case bodies\<close>

lemma patch_calls_append: "patch_calls (xs @ ys) = patch_calls xs @ patch_calls ys"
  by (induction xs rule: patch_calls.induct) simp_all

lemma range_Webhooks_cases:
  "range_Webhooks fl ca ws = [] \<or>
   range_Webhooks fl ca ws =
     [Infof ''Detected a change in CABundle, patching MutatingWebhookConfiguration again'',
      SendShouldPatch]"
  by (induction ws) simp_all

lemma range_Webhooks_sends:
  "(SendShouldPatch \<in> set (range_Webhooks fl ca ws)) =
     (\<exists>w\<in>set ws. Name w = webhookName fl \<and> CABundle (ClientConfig w) \<noteq> ca)"
  by (induction ws) auto

lemma range_Webhooks_empty:
  "(range_Webhooks fl ca ws = []) =
     (\<forall>w\<in>set ws. Name w = webhookName fl \<longrightarrow> CABundle (ClientConfig w) = ca)"
  by (induction ws) auto

lemma calls_delayedRetryC:
  "patch_calls (snd (case_delayedRetryC fl e s)) =
     [(caCertPem s,
       PatchMutatingWebhookConfig e (webhookConfigName fl) (webhookName fl) (caCertPem s))]"
  by (simp add: case_delayedRetryC_def doPatch_def patch_calls_append split: option.splits)

lemma calls_shouldPatch:
  "patch_calls (snd (case_shouldPatch fl e s)) =
     [(caCertPem s,
       PatchMutatingWebhookConfig e (webhookConfigName fl) (webhookName fl) (caCertPem s))]"
  by (simp add: case_shouldPatch_def doPatch_def patch_calls_append split: option.splits)

lemma calls_watcher_Event:
  "patch_calls (snd (case_watcher_Event fl e s)) =
     (case ReadFile e (caCertFile fl) of
        Inl err \<Rightarrow> []
      | Inr b \<Rightarrow> [(b, PatchMutatingWebhookConfig e (webhookConfigName fl) (webhookName fl) b)])"
  by (simp add: case_watcher_Event_def doPatch_def patch_calls_append Let_def
      split: option.splits sum.splits)

lemma held_delayedRetryC: "caCertPem (fst (case_delayedRetryC fl e s)) = caCertPem s"
  by (simp add: case_delayedRetryC_def split: prod.splits)

lemma held_shouldPatch: "caCertPem (fst (case_shouldPatch fl e s)) = caCertPem s"
  by (simp add: case_shouldPatch_def split: prod.splits)

lemma held_watcher_Event:
  "caCertPem (fst (case_watcher_Event fl e s)) =
     (case ReadFile e (caCertFile fl) of Inl err \<Rightarrow> caCertPem s | Inr b \<Rightarrow> b)"
  by (simp add: case_watcher_Event_def Let_def split: prod.splits sum.splits)

lemma timers_delayedRetryC:
  "filter is_TimeAfter (snd (case_delayedRetryC fl e s)) =
     (if PatchMutatingWebhookConfig e (webhookConfigName fl) (webhookName fl) (caCertPem s) = None
      then [] else [TimeAfter delayedRetryTime])"
  by (simp add: case_delayedRetryC_def doPatch_def split: option.splits)

lemma timers_shouldPatch:
  "filter is_TimeAfter (snd (case_shouldPatch fl e s)) =
     (if PatchMutatingWebhookConfig e (webhookConfigName fl) (webhookName fl) (caCertPem s) \<noteq> None
         \<and> delayedRetryC s = None
      then [TimeAfter delayedRetryTime] else [])"
  by (simp add: case_shouldPatch_def doPatch_def split: option.splits)

lemma timers_watcher_Event:
  "filter is_TimeAfter (snd (case_watcher_Event fl e s)) =
     (case ReadFile e (caCertFile fl) of
        Inl err \<Rightarrow> []
      | Inr b \<Rightarrow>
          (if PatchMutatingWebhookConfig e (webhookConfigName fl) (webhookName fl) b \<noteq> None
              \<and> delayedRetryC s = None
           then [TimeAfter delayedRetryTime] else []))"
  by (simp add: case_watcher_Event_def doPatch_def Let_def split: option.splits sum.splits)


text \<open>The two cases fed from outside leave a deadline as it is, or clear it.\<close>

lemma other_cases_keep_deadline:
  assumes "c \<noteq> DelayedRetryC" and "delayedRetryC s = Some d"
  shows "delayedRetryC (fst (select_body fl e c s)) = None \<or>
         delayedRetryC (fst (select_body fl e c s)) = Some d"
  using assms
  by (cases c)
     (auto simp: case_shouldPatch_def case_watcher_Event_def doPatch_def Let_def
        split: option.splits sum.splits)

lemma failure_arms:
  assumes "(b, Some err) \<in> set (patch_calls (snd (select_body fl e c s)))"
  shows "delayedRetryC (fst (select_body fl e c s)) \<noteq> None"
  using assms
  by (cases c)
     (auto simp: case_delayedRetryC_def case_shouldPatch_def case_watcher_Event_def doPatch_def
        Let_def patch_calls_append split: option.splits sum.splits if_splits)

section \<open>Facts about runs of the loop\<close>

lemma run_Cons:
  "run fl (ec # evs) s =
     (fst (run fl evs (fst (select_body fl (fst ec) (snd ec) s))),
      snd (select_body fl (fst ec) (snd ec) s) @
      snd (run fl evs (fst (select_body fl (fst ec) (snd ec) s))))"
  by (simp add: split_beta Let_def)

text \<open>
  Every assignment to \<^verbatim>\<open>caCertPem\<close> is followed at once by a patch call with the new
  value, so the bundle held is always the bundle of the latest patch call.
\<close>

lemma step_keeps_attempt:
  assumes "last_attempted pre = Some (caCertPem s)"
  shows "last_attempted (pre @ snd (select_body fl e c s)) =
           Some (caCertPem (fst (select_body fl e c s)))"
  using assms
  by (cases c)
     (simp_all add: last_attempted_def patch_calls_append calls_delayedRetryC calls_shouldPatch
        calls_watcher_Event held_delayedRetryC held_shouldPatch held_watcher_Event
        split: sum.splits)

lemma run_keeps_attempt:
  "last_attempted pre = Some (caCertPem s) \<Longrightarrow>
   last_attempted (pre @ snd (run fl evs s)) = Some (caCertPem (fst (run fl evs s)))"
proof (induction evs arbitrary: s pre)
  case Nil
  then show ?case by simp
next
  case (Cons ec evs)
  let ?s1 = "fst (select_body fl (fst ec) (snd ec) s)"
  let ?fx1 = "snd (select_body fl (fst ec) (snd ec) s)"
  have "last_attempted (pre @ ?fx1) = Some (caCertPem ?s1)"
    using Cons.prems by (rule step_keeps_attempt)
  then have "last_attempted ((pre @ ?fx1) @ snd (run fl evs ?s1)) =
               Some (caCertPem (fst (run fl evs ?s1)))"
    by (rule Cons.IH)
  then show ?case by (simp add: run_Cons del: run.simps)
qed

lemma execute_attempt:
  assumes "fst (execute fl e0 e1 evs) = Inr s"
  shows "last_attempted (snd (execute fl e0 e1 evs)) = Some (caCertPem s)"
proof -
  obtain start fx where p: "patchCertLoop fl e0 = (Inr start, fx)"
    using assms by (cases "patchCertLoop fl e0"; cases "fst (patchCertLoop fl e0)")
      (auto simp: execute_def)
  have a: "last_attempted fx = Some (fst start)"
    using p by (auto simp: patchCertLoop_def last_attempted_def Let_def
        split: option.splits sum.splits)
  let ?s0 = "fst (loop_init e1 start)"
  let ?fx0 = "snd (loop_init e1 start)"
  have b: "last_attempted (fx @ ?fx0) = Some (caCertPem ?s0)"
    using a by (simp add: loop_init_def last_attempted_def patch_calls_append)
  have c: "last_attempted ((fx @ ?fx0) @ snd (run fl evs ?s0)) =
             Some (caCertPem (fst (run fl evs ?s0)))"
    using b by (rule run_keeps_attempt)
  have "execute fl e0 e1 evs = (Inr (fst (run fl evs ?s0)), fx @ ?fx0 @ snd (run fl evs ?s0))"
    using p by (simp add: execute_def split_beta Let_def)
  with assms c show ?thesis by simp
qed

text \<open>
  Passes in which no file is read with success leave the bundle held as it is, and each
  pass on the timer or on a request makes one patch call with it.
\<close>

lemma run_without_new_content:
  assumes "\<forall>ec\<in>set evs. snd ec = WatcherEvent \<longrightarrow> isl (ReadFile (fst ec) (caCertFile fl))"
  shows "caCertPem (fst (run fl evs s)) = caCertPem s \<and>
         map fst (patch_calls (snd (run fl evs s))) =
           replicate (length (filter (\<lambda>ec. snd ec \<noteq> WatcherEvent) evs)) (caCertPem s)"
  using assms
proof (induction evs arbitrary: s)
  case Nil
  then show ?case by simp
next
  case (Cons ec evs)
  let ?s1 = "fst (select_body fl (fst ec) (snd ec) s)"
  let ?fx1 = "snd (select_body fl (fst ec) (snd ec) s)"
  have h: "caCertPem ?s1 = caCertPem s"
    using Cons.prems
    by (cases "snd ec")
       (auto simp: held_delayedRetryC held_shouldPatch held_watcher_Event isl_def)
  have c: "map fst (patch_calls ?fx1) = (if snd ec = WatcherEvent then [] else [caCertPem s])"
    using Cons.prems
    by (cases "snd ec")
       (auto simp: calls_delayedRetryC calls_shouldPatch calls_watcher_Event isl_def)
  have ih: "caCertPem (fst (run fl evs ?s1)) = caCertPem ?s1 \<and>
         map fst (patch_calls (snd (run fl evs ?s1))) =
           replicate (length (filter (\<lambda>ec. snd ec \<noteq> WatcherEvent) evs)) (caCertPem ?s1)"
    using Cons.prems by (intro Cons.IH) simp
  show ?case
    using h c ih by (simp add: run_Cons patch_calls_append del: run.simps)
qed

text \<open>Whether a case of the \<^verbatim>\<open>select\<close> can be taken does not depend on the stop channel.\<close>

lemma ready_ignores_stop: "ready e (sys\<lparr>stopCh_closed := x\<rparr>) c = ready e sys c"
  by (cases c) simp_all

lemma receive_ignores_stop:
  "(step fl e (Receive c) (sys\<lparr>stopCh_closed := x\<rparr>) = None) =
   (step fl e (Receive c) sys = None)"
  by (simp add: ready_ignores_stop)

lemmas concrete_defs =
  started_def world_def default_flags_def bundle_X_def bundle_Z_def
  forbidden_def config_with_def held_after_refusal_def delayedRetryTime_def
  case_watcher_Event_def case_shouldPatch_def case_delayedRetryC_def doPatch_def
  UpdateFunc_def Let_def

lemmas exec_defs = concrete_defs refused_rotation_def execute_def patchCertLoop_def loop_init_def
  filepath_Split_def last_attempted_def last_written_def

section \<open>The claims\<close>

subsection \<open>C1: when the callback asks for a patch\<close>

text \<open>
  Claim C1, as worded, fails. It says that an update event with a new resource version
  yields a request exactly when an entry with the target name carries a bundle other than
  the one most recently written by the patcher, and that an update which changes only
  unrelated fields yields none. In \<open>refused_rotation\<close> the patcher last wrote
  \<open>bundle_X\<close>, the loop holds \<open>bundle_Z\<close> after a patch call that failed, and an update
  that leaves the entry at \<open>bundle_X\<close> and changes the resource version only makes the
  callback send.
\<close>

theorem request_not_decided_by_last_written:
  "fst refused_rotation = Inr held_after_refusal \<and>
   last_written (snd refused_rotation) = Some bundle_X \<and>
   Webhooks (config_with ''2'' bundle_X) = Webhooks (config_with ''1'' bundle_X) \<and>
   \<not> claimed_request default_flags (last_written (snd refused_rotation))
        (config_with ''1'' bundle_X) (config_with ''2'' bundle_X) \<and>
   SendShouldPatch \<in> set (UpdateFunc default_flags held_after_refusal
        (config_with ''1'' bundle_X) (config_with ''2'' bundle_X))"
  by (simp add: refused_rotation_def held_after_refusal_def execute_def patchCertLoop_def
      loop_init_def case_watcher_Event_def doPatch_def world_def default_flags_def
      forbidden_def bundle_X_def bundle_Z_def config_with_def claimed_request_def
      UpdateFunc_def last_written_def delayedRetryTime_def filepath_Split_def Let_def)

text \<open>
  Claim C1, amended: the callback sends a request if and only if the resource version of
  the new object differs from that of the old one and some entry with the target name
  carries a bundle that is not byte-equal to the bundle the loop holds; it sends at most
  once per event; when every entry with the target name carries the bundle held, it sends
  nothing and logs nothing, whatever else changed. The bundle held is the one handed to
  the most recent patch call, whether that call succeeded or not.
\<close>

theorem request_iff_differs_from_held:
  "(SendShouldPatch \<in> set (UpdateFunc fl s oldConfig newConfig)) =
     (ResourceVersion oldConfig \<noteq> ResourceVersion newConfig \<and>
      (\<exists>w\<in>set (Webhooks newConfig).
          Name w = webhookName fl \<and> CABundle (ClientConfig w) \<noteq> caCertPem s))
   \<and> length (filter (\<lambda>x. x = SendShouldPatch) (UpdateFunc fl s oldConfig newConfig)) \<le> 1
   \<and> ((\<forall>w\<in>set (Webhooks newConfig).
          Name w = webhookName fl \<longrightarrow> CABundle (ClientConfig w) = caCertPem s)
        \<longrightarrow> UpdateFunc fl s oldConfig newConfig = [])
   \<and> (fst (execute fl e0 e1 evs) = Inr s
        \<longrightarrow> last_attempted (snd (execute fl e0 e1 evs)) = Some (caCertPem s))"
proof (intro conjI impI)
  show "(SendShouldPatch \<in> set (UpdateFunc fl s oldConfig newConfig)) =
     (ResourceVersion oldConfig \<noteq> ResourceVersion newConfig \<and>
      (\<exists>w\<in>set (Webhooks newConfig).
          Name w = webhookName fl \<and> CABundle (ClientConfig w) \<noteq> caCertPem s))"
    by (simp add: UpdateFunc_def range_Webhooks_sends)
  show "length (filter (\<lambda>x. x = SendShouldPatch) (UpdateFunc fl s oldConfig newConfig)) \<le> 1"
    using range_Webhooks_cases [of fl "caCertPem s" "Webhooks newConfig"]
    by (auto simp: UpdateFunc_def)
  show "UpdateFunc fl s oldConfig newConfig = []"
    if "\<forall>w\<in>set (Webhooks newConfig).
          Name w = webhookName fl \<longrightarrow> CABundle (ClientConfig w) = caCertPem s"
    using that by (simp add: UpdateFunc_def range_Webhooks_empty)
  show "last_attempted (snd (execute fl e0 e1 evs)) = Some (caCertPem s)"
    if "fst (execute fl e0 e1 evs) = Inr s"
    using that by (rule execute_attempt)
qed

text \<open>
  Claim C1, amended, at the state after the refused rotation: an update whose entry carries
  the bundle held yields nothing, one whose entry carries the older bundle yields a request.
\<close>

theorem request_iff_differs_from_held_witness:
  "fst refused_rotation = Inr held_after_refusal
   \<and> last_attempted (snd refused_rotation) = Some bundle_Z
   \<and> UpdateFunc default_flags held_after_refusal
        (config_with ''1'' bundle_X) (config_with ''2'' bundle_Z) = []
   \<and> SendShouldPatch \<in> set (UpdateFunc default_flags held_after_refusal
        (config_with ''2'' bundle_Z) (config_with ''3'' bundle_X))"
  using request_iff_differs_from_held
      [where fl = default_flags and s = held_after_refusal
        and oldConfig = "config_with ''1'' bundle_X" and newConfig = "config_with ''2'' bundle_Z"
        and ?e0.0 = "world 0 (Inr bundle_X) None" and ?e1.0 = "world 1 (Inr bundle_X) None"
        and evs = "[(world 5 (Inr bundle_Z) forbidden, WatcherEvent)]"]
    request_iff_differs_from_held
      [where fl = default_flags and s = held_after_refusal
        and oldConfig = "config_with ''2'' bundle_Z" and newConfig = "config_with ''3'' bundle_X"
        and ?e0.0 = "world 0 (Inr bundle_X) None" and ?e1.0 = "world 1 (Inr bundle_X) None"
        and evs = "[(world 5 (Inr bundle_Z) forbidden, WatcherEvent)]"]
  by (simp add: exec_defs)

subsection \<open>C2: the case of a request\<close>

text \<open>
  Claim C2: the body of \<^verbatim>\<open>case <-shouldPatch\<close> makes one patch call, with the bundle
  held, and reads no file; the bundle held stays. If the call succeeds the timer channel is
  nil afterwards. If it fails and no timer was armed, one is armed for now plus
  \<open>delayedRetryTime\<close>; if it fails and a timer was armed, its deadline stays.
\<close>

theorem request_case_discipline:
  fixes fl e s
  defines "r \<equiv> PatchMutatingWebhookConfig e (webhookConfigName fl) (webhookName fl) (caCertPem s)"
  defines "s' \<equiv> fst (case_shouldPatch fl e s)"
  defines "fx \<equiv> snd (case_shouldPatch fl e s)"
  shows "filter is_io fx = [Patch (webhookConfigName fl) (webhookName fl) (caCertPem s) r]
     \<and> caCertPem s' = caCertPem s
     \<and> (r = None \<longrightarrow> delayedRetryC s' = None)
     \<and> (r \<noteq> None \<longrightarrow> delayedRetryC s = None \<longrightarrow>
          delayedRetryC s' = Some (now e + delayedRetryTime))
     \<and> (r \<noteq> None \<longrightarrow> delayedRetryC s \<noteq> None \<longrightarrow> delayedRetryC s' = delayedRetryC s)"
  unfolding r_def s'_def fx_def
  by (simp add: case_shouldPatch_def doPatch_def split: option.splits prod.splits)

text \<open>
  Claim C2 at concrete inputs: a success clears the deadline, a failure with no timer arms
  one a second after the clock reading 7, a failure with the timer of
  \<open>held_after_refusal\<close> keeps its deadline.
\<close>

theorem request_case_discipline_witness:
  "delayedRetryC (fst (case_shouldPatch default_flags (world 7 (Inr bundle_Z) None)
      held_after_refusal)) = None
   \<and> delayedRetryC (fst (case_shouldPatch default_flags (world 7 (Inr bundle_Z) forbidden)
      \<lparr>caCertPem = bundle_Z, delayedRetryC = None\<rparr>)) = Some 1000000007
   \<and> delayedRetryC (fst (case_shouldPatch default_flags (world 7 (Inr bundle_Z) forbidden)
      held_after_refusal)) = Some 1000000005
   \<and> filter is_io (snd (case_shouldPatch default_flags (world 7 (Inr bundle_X) forbidden)
      held_after_refusal)) =
       [Patch ''istio-sidecar-injector'' ''sidecar-injector.istio.io'' bundle_Z forbidden]"
  using request_case_discipline
      [where fl = default_flags and e = "world 7 (Inr bundle_Z) None" and s = held_after_refusal]
    request_case_discipline
      [where fl = default_flags and e = "world 7 (Inr bundle_Z) forbidden"
        and s = "\<lparr>caCertPem = bundle_Z, delayedRetryC = None\<rparr>"]
    request_case_discipline
      [where fl = default_flags and e = "world 7 (Inr bundle_Z) forbidden"
        and s = held_after_refusal]
    request_case_discipline
      [where fl = default_flags and e = "world 7 (Inr bundle_X) forbidden"
        and s = held_after_refusal]
  by (simp add: world_def default_flags_def forbidden_def held_after_refusal_def
      delayedRetryTime_def)

subsection \<open>C3: the case of the timer\<close>

text \<open>
  Claim C3: the body of \<^verbatim>\<open>case <-delayedRetryC\<close> makes one patch call, with the bundle
  held. If the call succeeds the timer channel is nil afterwards; if it fails the timer is
  armed for now plus \<open>delayedRetryTime\<close> whatever it was before, and when the case was
  ready that is later than the deadline that has just passed. No other case replaces a
  deadline by another one.
\<close>

theorem timer_case_discipline:
  fixes fl e s
  defines "r \<equiv> PatchMutatingWebhookConfig e (webhookConfigName fl) (webhookName fl) (caCertPem s)"
  defines "s' \<equiv> fst (case_delayedRetryC fl e s)"
  defines "fx \<equiv> snd (case_delayedRetryC fl e s)"
  shows "filter is_io fx = [Patch (webhookConfigName fl) (webhookName fl) (caCertPem s) r]
     \<and> caCertPem s' = caCertPem s
     \<and> (r = None \<longrightarrow> delayedRetryC s' = None)
     \<and> (r \<noteq> None \<longrightarrow> delayedRetryC s' = Some (now e + delayedRetryTime))
     \<and> (r \<noteq> None \<longrightarrow> timer_ready e s \<longrightarrow>
          (\<exists>d. delayedRetryC s = Some d \<and> d < now e + delayedRetryTime))
     \<and> (\<forall>c d e1. c \<noteq> DelayedRetryC \<longrightarrow> delayedRetryC s = Some d \<longrightarrow>
          delayedRetryC (fst (select_body fl e1 c s)) = None \<or>
          delayedRetryC (fst (select_body fl e1 c s)) = Some d)"
proof -
  have "filter is_io fx = [Patch (webhookConfigName fl) (webhookName fl) (caCertPem s) r]"
    unfolding r_def fx_def
    by (simp add: case_delayedRetryC_def doPatch_def split: option.splits)
  moreover have "caCertPem s' = caCertPem s"
    unfolding s'_def by (rule held_delayedRetryC)
  moreover have "r = None \<longrightarrow> delayedRetryC s' = None"
    unfolding r_def s'_def by (simp add: case_delayedRetryC_def doPatch_def)
  moreover have "r \<noteq> None \<longrightarrow> delayedRetryC s' = Some (now e + delayedRetryTime)"
    unfolding r_def s'_def by (auto simp: case_delayedRetryC_def doPatch_def)
  moreover have "r \<noteq> None \<longrightarrow> timer_ready e s \<longrightarrow>
          (\<exists>d. delayedRetryC s = Some d \<and> d < now e + delayedRetryTime)"
    by (auto simp: delayedRetryTime_def split: option.splits)
  moreover have "\<forall>c d e1. c \<noteq> DelayedRetryC \<longrightarrow> delayedRetryC s = Some d \<longrightarrow>
          delayedRetryC (fst (select_body fl e1 c s)) = None \<or>
          delayedRetryC (fst (select_body fl e1 c s)) = Some d"
    using other_cases_keep_deadline by blast
  ultimately show ?thesis by blast
qed

text \<open>
  Claim C3 at concrete inputs: the timer of \<open>held_after_refusal\<close> is due at the clock
  reading 1000000009; a failed retry moves the deadline to 2000000009, a retry that succeeds
  clears it, and a failed request before it was due left it at 1000000005.
\<close>

theorem timer_case_discipline_witness:
  "timer_ready (world 1000000009 (Inr bundle_Z) forbidden) held_after_refusal
   \<and> delayedRetryC (fst (case_delayedRetryC default_flags
        (world 1000000009 (Inr bundle_Z) forbidden) held_after_refusal)) = Some 2000000009
   \<and> delayedRetryC (fst (case_delayedRetryC default_flags
        (world 1000000009 (Inr bundle_Z) None) held_after_refusal)) = None
   \<and> delayedRetryC (fst (select_body default_flags
        (world 7 (Inr bundle_Z) forbidden) ShouldPatch held_after_refusal)) = Some 1000000005"
  using timer_case_discipline
      [where fl = default_flags and e = "world 1000000009 (Inr bundle_Z) forbidden"
        and s = held_after_refusal]
    timer_case_discipline
      [where fl = default_flags and e = "world 1000000009 (Inr bundle_Z) None"
        and s = held_after_refusal]
  by (simp add: world_def default_flags_def forbidden_def held_after_refusal_def
      delayedRetryTime_def case_shouldPatch_def doPatch_def)

subsection \<open>C4: the case of a file event\<close>

text \<open>
  Claim C4: when the file can be read, the body of \<^verbatim>\<open>case <-watcher.Event\<close> reads it
  once and makes one patch call with the bytes read, whatever the loop held and whatever
  the cluster answers; the timer is then treated as in the case of a request: cleared on
  success, armed on failure if none was armed, left alone on failure otherwise.
\<close>

theorem file_case_discipline:
  fixes fl e s b
  defines "r \<equiv> PatchMutatingWebhookConfig e (webhookConfigName fl) (webhookName fl) b"
  defines "s' \<equiv> fst (case_watcher_Event fl e s)"
  defines "fx \<equiv> snd (case_watcher_Event fl e s)"
  assumes "ReadFile e (caCertFile fl) = Inr b"
  shows "filter is_io fx =
           [FileRead (caCertFile fl) (Inr b),
            Patch (webhookConfigName fl) (webhookName fl) b r]
     \<and> caCertPem s' = b
     \<and> (r = None \<longrightarrow> delayedRetryC s' = None)
     \<and> (r \<noteq> None \<longrightarrow> delayedRetryC s = None \<longrightarrow>
          delayedRetryC s' = Some (now e + delayedRetryTime))
     \<and> (r \<noteq> None \<longrightarrow> delayedRetryC s \<noteq> None \<longrightarrow> delayedRetryC s' = delayedRetryC s)"
  using assms(4) unfolding r_def s'_def fx_def
  by (simp add: case_watcher_Event_def doPatch_def Let_def split: option.splits)

text \<open>
  Claim C4 at concrete inputs: the whole outcome of a file event whose patch call fails with
  no timer armed, and the state after a failure and after a success with a timer armed.
\<close>

theorem file_case_discipline_witness:
  "ReadFile (world 5 (Inr bundle_Z) forbidden) (caCertFile default_flags) = Inr bundle_Z
   \<and> case_watcher_Event default_flags (world 5 (Inr bundle_Z) forbidden)
        \<lparr>caCertPem = bundle_X, delayedRetryC = None\<rparr> =
       (\<lparr>caCertPem = bundle_Z, delayedRetryC = Some 1000000005\<rparr>,
        [FileRead ''/etc/istio/certs/root-cert.pem'' (Inr bundle_Z),
         Infof ''Detected a change in CABundle (via secret), patching MutatingWebhookConfiguration again'',
         Patch ''istio-sidecar-injector'' ''sidecar-injector.istio.io'' bundle_Z forbidden,
         Errorf ''Patch webhook failed: forbidden'',
         TimeAfter 1000000000,
         Infof ''Patch failed - retrying every 1s until success''])
   \<and> fst (case_watcher_Event default_flags (world 9 (Inr bundle_X) forbidden)
        held_after_refusal) = \<lparr>caCertPem = bundle_X, delayedRetryC = Some 1000000005\<rparr>
   \<and> fst (case_watcher_Event default_flags (world 9 (Inr bundle_X) None)
        held_after_refusal) = \<lparr>caCertPem = bundle_X, delayedRetryC = None\<rparr>"
  using file_case_discipline
      [where fl = default_flags and e = "world 5 (Inr bundle_Z) forbidden" and b = bundle_Z
        and s = "\<lparr>caCertPem = bundle_X, delayedRetryC = None\<rparr>"]
    file_case_discipline
      [where fl = default_flags and e = "world 9 (Inr bundle_X) forbidden" and b = bundle_X
        and s = held_after_refusal]
    file_case_discipline
      [where fl = default_flags and e = "world 9 (Inr bundle_X) None" and b = bundle_X
        and s = held_after_refusal]
  by (simp add: concrete_defs)

subsection \<open>C5: startup\<close>



subsection \<open>C6: a failed patch call leaves a timer armed\<close>

text \<open>
  Claim C6: the loop waits on one timer channel at most, the variable \<open>delayedRetryC\<close>
  (a timer whose channel the loop has dropped is not stopped, but nothing waits on it).
  A pass creates at most one timer, and creates one only when none was armed or when the
  pass is the one taken on the timer. After a pass in which a patch call failed, and after
  a setup whose patch call failed, a timer is armed.
\<close>

theorem failed_patch_arms_timer:
  "(\<forall>b err. (b, Some err) \<in> set (patch_calls (snd (select_body fl e c s))) \<longrightarrow>
       delayedRetryC (fst (select_body fl e c s)) \<noteq> None)
   \<and> length (filter is_TimeAfter (snd (select_body fl e c s))) \<le> 1
   \<and> (filter is_TimeAfter (snd (select_body fl e c s)) \<noteq> [] \<longrightarrow>
        delayedRetryC s = None \<or> c = DelayedRetryC)
   \<and> (\<forall>start b err. fst (patchCertLoop fl e0) = Inr start \<longrightarrow>
        (b, Some err) \<in> set (patch_calls (snd (patchCertLoop fl e0))) \<longrightarrow>
        delayedRetryC (fst (loop_init e1 start)) \<noteq> None)
   \<and> length (filter is_TimeAfter (snd (loop_init e1 start1))) \<le> 1"
proof (intro conjI)
  show "\<forall>b err. (b, Some err) \<in> set (patch_calls (snd (select_body fl e c s))) \<longrightarrow>
       delayedRetryC (fst (select_body fl e c s)) \<noteq> None"
    using failure_arms by blast
  show "length (filter is_TimeAfter (snd (select_body fl e c s))) \<le> 1"
    by (cases c)
       (simp_all add: timers_delayedRetryC timers_shouldPatch timers_watcher_Event
          split: sum.splits)
  show "filter is_TimeAfter (snd (select_body fl e c s)) \<noteq> [] \<longrightarrow>
        delayedRetryC s = None \<or> c = DelayedRetryC"
    by (cases c)
       (simp_all add: timers_shouldPatch timers_watcher_Event split: sum.splits)
  show "\<forall>start b err. fst (patchCertLoop fl e0) = Inr start \<longrightarrow>
        (b, Some err) \<in> set (patch_calls (snd (patchCertLoop fl e0))) \<longrightarrow>
        delayedRetryC (fst (loop_init e1 start)) \<noteq> None"
    by (auto simp: patchCertLoop_def loop_init_def Let_def split: option.splits sum.splits)
  show "length (filter is_TimeAfter (snd (loop_init e1 start1))) \<le> 1"
    by (simp add: loop_init_def)
qed

text \<open>
  Claim C6 at concrete inputs: a file event whose patch call fails, with no timer armed,
  creates one timer; a setup whose patch call fails leaves the goroutine with a timer.
\<close>

theorem failed_patch_arms_timer_witness:
  "(bundle_Z, forbidden) \<in> set (patch_calls (snd (select_body default_flags
       (world 5 (Inr bundle_Z) forbidden) WatcherEvent
       \<lparr>caCertPem = bundle_X, delayedRetryC = None\<rparr>)))
   \<and> delayedRetryC (fst (select_body default_flags
       (world 5 (Inr bundle_Z) forbidden) WatcherEvent
       \<lparr>caCertPem = bundle_X, delayedRetryC = None\<rparr>)) = Some 1000000005
   \<and> filter is_TimeAfter (snd (select_body default_flags
       (world 5 (Inr bundle_Z) forbidden) WatcherEvent
       \<lparr>caCertPem = bundle_X, delayedRetryC = None\<rparr>)) = [TimeAfter 1000000000]
   \<and> fst (patchCertLoop default_flags (world 0 (Inr bundle_X) forbidden)) = Inr (bundle_X, True)
   \<and> delayedRetryC (fst (loop_init (world 3 (Inr bundle_X) forbidden) (bundle_X, True)))
       = Some 1000000003"
  using failed_patch_arms_timer
      [where fl = default_flags and e = "world 5 (Inr bundle_Z) forbidden" and c = WatcherEvent
        and s = "\<lparr>caCertPem = bundle_X, delayedRetryC = None\<rparr>"
        and ?e0.0 = "world 0 (Inr bundle_X) forbidden"
        and ?e1.0 = "world 3 (Inr bundle_X) forbidden" and ?start1.0 = "(bundle_X, True)"]
  by (simp add: exec_defs)

subsection \<open>C7: a file that cannot be read\<close>

text \<open>
  Claim C7: with the client set created, a failed read of the bundle file makes
  \<^verbatim>\<open>patchCertLoop\<close> return that error; a watcher that cannot be created makes it
  return that error; a directory that cannot be watched makes it return an error that
  names the file and the cause. Whenever it returns an error no patch call was made and
  nothing of the loop runs. In the loop, a file event whose read fails logs the error and
  leaves the whole state, the bundle held and the timer, as it was, with no patch call.
\<close>

theorem read_failure_fatal_at_startup_skipped_later:
  "(CreateClientset e (kubeconfigFile fl) = None \<longrightarrow>
      ReadFile e (caCertFile fl) = Inl err \<longrightarrow>
      patchCertLoop fl e = (Inl err, [FileRead (caCertFile fl) (Inl err)]))
   \<and> (CreateClientset e (kubeconfigFile fl) = None \<longrightarrow>
      ReadFile e (caCertFile fl) = Inr ca \<longrightarrow>
      NewWatcher e = Some err \<longrightarrow>
      patchCertLoop fl e = (Inl err, [FileRead (caCertFile fl) (Inr ca)]))
   \<and> (CreateClientset e (kubeconfigFile fl) = None \<longrightarrow>
      ReadFile e (caCertFile fl) = Inr ca \<longrightarrow>
      NewWatcher e = None \<longrightarrow>
      Watch e (fst (filepath_Split (caCertFile fl))) = Some err \<longrightarrow>
      patchCertLoop fl e =
        (Inl (Error (''could not watch '' @ caCertFile fl @ '': '' @ msg err)),
         [FileRead (caCertFile fl) (Inr ca), WatchDir (fst (filepath_Split (caCertFile fl)))]))
   \<and> (fst (patchCertLoop fl e) = Inl err \<longrightarrow>
      execute fl e e1 evs = (Inl err, snd (patchCertLoop fl e)) \<and>
      patch_calls (snd (patchCertLoop fl e)) = [])
   \<and> (ReadFile e (caCertFile fl) = Inl err \<longrightarrow>
      case_watcher_Event fl e s =
        (s, [FileRead (caCertFile fl) (Inl err),
             Errorf (''CA bundle file read error: '' @ msg err)]))"
proof (intro conjI impI)
  assume "fst (patchCertLoop fl e) = Inl err"
  then show "execute fl e e1 evs = (Inl err, snd (patchCertLoop fl e))"
    by (cases "patchCertLoop fl e") (simp add: execute_def)
  assume "fst (patchCertLoop fl e) = Inl err"
  then show "patch_calls (snd (patchCertLoop fl e)) = []"
    by (auto simp: patchCertLoop_def Let_def split: option.splits sum.splits)
qed (simp_all add: patchCertLoop_def case_watcher_Event_def)

text \<open>
  Claim C7 at concrete inputs: a missing file at setup, a watcher that cannot be created, a
  directory that cannot be watched, the run that does not follow, and a missing file at a
  file event of the loop.
\<close>

theorem read_failure_fatal_at_startup_skipped_later_witness:
  "patchCertLoop default_flags (world 0 (Inl (Error ''no such file or directory'')) None) =
     (Inl (Error ''no such file or directory''),
      [FileRead ''/etc/istio/certs/root-cert.pem'' (Inl (Error ''no such file or directory''))])
   \<and> patchCertLoop default_flags
       ((world 0 (Inr bundle_X) None)\<lparr>NewWatcher := Some (Error ''too many open files'')\<rparr>) =
     (Inl (Error ''too many open files''),
      [FileRead ''/etc/istio/certs/root-cert.pem'' (Inr bundle_X)])
   \<and> patchCertLoop default_flags
       ((world 0 (Inr bundle_X) None)\<lparr>Watch := (\<lambda>d. Some (Error ''no space left on device''))\<rparr>) =
     (Inl (Error ''could not watch /etc/istio/certs/root-cert.pem: no space left on device''),
      [FileRead ''/etc/istio/certs/root-cert.pem'' (Inr bundle_X),
       WatchDir ''/etc/istio/certs/''])
   \<and> execute default_flags (world 0 (Inl (Error ''no such file or directory'')) None)
        (world 1 (Inr bundle_X) None) [(world 5 (Inr bundle_Z) None, WatcherEvent)] =
     (Inl (Error ''no such file or directory''),
      [FileRead ''/etc/istio/certs/root-cert.pem'' (Inl (Error ''no such file or directory''))])
   \<and> case_watcher_Event default_flags (world 9 (Inl (Error ''no such file or directory'')) None)
        held_after_refusal =
     (held_after_refusal,
      [FileRead ''/etc/istio/certs/root-cert.pem'' (Inl (Error ''no such file or directory'')),
       Errorf ''CA bundle file read error: no such file or directory''])"
  using read_failure_fatal_at_startup_skipped_later
      [where e = "world 0 (Inl (Error ''no such file or directory'')) None"
        and fl = default_flags and err = "Error ''no such file or directory''"
        and ?e1.0 = "world 1 (Inr bundle_X) None"
        and evs = "[(world 5 (Inr bundle_Z) None, WatcherEvent)]"]
    read_failure_fatal_at_startup_skipped_later
      [where e = "(world 0 (Inr bundle_X) None)\<lparr>NewWatcher := Some (Error ''too many open files'')\<rparr>"
        and fl = default_flags and err = "Error ''too many open files''" and ca = bundle_X]
    read_failure_fatal_at_startup_skipped_later
      [where e = "(world 0 (Inr bundle_X) None)\<lparr>Watch := (\<lambda>d. Some (Error ''no space left on device''))\<rparr>"
        and fl = default_flags and err = "Error ''no space left on device''" and ca = bundle_X]
    read_failure_fatal_at_startup_skipped_later
      [where e = "world 9 (Inl (Error ''no such file or directory'')) None"
        and fl = default_flags and err = "Error ''no such file or directory''"
        and s = held_after_refusal]
  by (simp add: exec_defs)

subsection \<open>C8: the stop channel\<close>

text \<open>
  Claim C8 says that the loop stops selecting once the stop signal has fired. The
  \<^verbatim>\<open>select\<close> has no case for \<^verbatim>\<open>stopCh\<close>, which only \<^verbatim>\<open>controller.Run\<close> receives, and
  the file watcher is never closed: after the channel is closed the informer returns, and
  a file event that arrives then is still taken by the loop, which reads the file and
  patches.
\<close>

theorem loop_selects_after_stop:
  "steps default_flags
     [(world 5 (Inr bundle_Z) None, CloseStop),
      (world 5 (Inr bundle_Z) None, FsEvent),
      (world 5 (Inr bundle_Z) None, Receive WatcherEvent),
      (world 5 (Inr bundle_Z) None, Finish)]
     (started \<lparr>caCertPem = bundle_X, delayedRetryC = None\<rparr>) =
   Some (\<lparr>loop = \<lparr>caCertPem = bundle_Z, delayedRetryC = None\<rparr>, phase = Selecting,
           informer = Returned, stopCh_closed = True, watcher_Event = 0\<rparr>,
         [FileRead ''/etc/istio/certs/root-cert.pem'' (Inr bundle_Z),
          Infof ''Detected a change in CABundle (via secret), patching MutatingWebhookConfiguration again'',
          Patch ''istio-sidecar-injector'' ''sidecar-injector.istio.io'' bundle_Z None])"
  by (simp add: concrete_defs)

subsection \<open>C9: the send of the callback\<close>

text \<open>
  Claim C9, as worded, fails for the informer: it says that a producer can complete its
  emission whether or not the loop is busy. While the loop is inside the body of a file
  event, an update with a foreign bundle brings the callback to its send; the channel has
  no buffer, so the send cannot complete in that state, and the informer can deliver no
  further update.
\<close>

theorem send_blocked_while_loop_busy:
  "steps default_flags
     [(world 5 (Inr bundle_X) None, FsEvent),
      (world 5 (Inr bundle_X) None, Receive WatcherEvent),
      (world 5 (Inr bundle_X) None,
         Update (config_with ''1'' bundle_X) (config_with ''2'' bundle_Z))]
     (started \<lparr>caCertPem = bundle_X, delayedRetryC = None\<rparr>) =
   Some (busy_with_file,
         [Infof ''Detected a change in CABundle, patching MutatingWebhookConfiguration again'',
          SendShouldPatch])
   \<and> step default_flags (world 5 (Inr bundle_X) None) (Receive ShouldPatch) busy_with_file = None
   \<and> step default_flags (world 5 (Inr bundle_X) None)
        (Update (config_with ''2'' bundle_Z) (config_with ''3'' bundle_Z)) busy_with_file = None"
  by (simp add: concrete_defs busy_with_file_def)

text \<open>
  Claim C9, amended: the send of the callback completes exactly when the loop is at its
  \<^verbatim>\<open>select\<close> and takes the case of the request. Until then the informer stays in the
  send, whatever else happens, and delivers no further update. The send is not lost: the
  body the loop is in runs to its end and brings the loop back to the \<^verbatim>\<open>select\<close>, where
  the case is ready. (The channel of the file watcher is made by its library and is not
  part of this statement.)
\<close>

theorem send_completes_iff_selecting:
  "(informer sys = Sending \<longrightarrow>
      (step fl e (Receive ShouldPatch) sys \<noteq> None) = (phase sys = Selecting))
   \<and> (informer sys = Sending \<longrightarrow> step fl e (Update oldConfig newConfig) sys = None)
   \<and> (informer sys = Sending \<longrightarrow> a \<noteq> Receive ShouldPatch \<longrightarrow>
        step fl e a sys = Some (sys1, fx1) \<longrightarrow> informer sys1 = Sending)
   \<and> (informer sys = Sending \<longrightarrow> step fl e (Receive ShouldPatch) sys = Some (sys2, fx2) \<longrightarrow>
        informer sys2 \<noteq> Sending \<and> phase sys2 = Handling ShouldPatch \<and> fx2 = [])
   \<and> (phase sys = Handling c \<longrightarrow>
        (\<exists>sys3 fx3. step fl e Finish sys = Some (sys3, fx3) \<and> phase sys3 = Selecting \<and>
           informer sys3 = informer sys))"
proof (intro conjI impI)
  assume s: "informer sys = Sending"
  show "(step fl e (Receive ShouldPatch) sys \<noteq> None) = (phase sys = Selecting)"
    using s by simp
  show "step fl e (Update oldConfig newConfig) sys = None"
    using s by simp
  show "informer sys1 = Sending"
    if "a \<noteq> Receive ShouldPatch" and "step fl e a sys = Some (sys1, fx1)"
  proof (cases a)
    case (Receive c')
    with that s show ?thesis by (cases c') (auto split: if_splits)
  next
    case Finish
    with that s show ?thesis by (auto split: loop_phase.splits prod.splits)
  qed (use that s in \<open>auto split: if_splits\<close>)
  show "informer sys2 \<noteq> Sending"
    if "step fl e (Receive ShouldPatch) sys = Some (sys2, fx2)"
    using that by (auto split: if_splits)
  show "phase sys2 = Handling ShouldPatch"
    if "step fl e (Receive ShouldPatch) sys = Some (sys2, fx2)"
    using that by (auto split: if_splits)
  show "fx2 = []"
    if "step fl e (Receive ShouldPatch) sys = Some (sys2, fx2)"
    using that by (auto split: if_splits)
next
  assume "phase sys = Handling c"
  then show "\<exists>sys3 fx3. step fl e Finish sys = Some (sys3, fx3) \<and> phase sys3 = Selecting \<and>
           informer sys3 = informer sys"
    by (simp add: split_beta)
qed

text \<open>
  Claim C9, amended, at \<open>busy_with_file\<close>: the send cannot complete while the loop is in
  the body of the file event; once that body has run to its end the loop takes the request.
\<close>

theorem send_completes_iff_selecting_witness:
  "informer busy_with_file = Sending
   \<and> phase busy_with_file = Handling WatcherEvent
   \<and> step default_flags (world 5 (Inr bundle_X) None) (Receive ShouldPatch) busy_with_file = None
   \<and> steps default_flags
       [(world 5 (Inr bundle_X) None, Finish),
        (world 6 (Inr bundle_X) None, Receive ShouldPatch)] busy_with_file =
     Some (\<lparr>loop = \<lparr>caCertPem = bundle_X, delayedRetryC = None\<rparr>,
             phase = Handling ShouldPatch, informer = Idle, stopCh_closed = False,
             watcher_Event = 0\<rparr>,
           [FileRead ''/etc/istio/certs/root-cert.pem'' (Inr bundle_X),
            Infof ''Detected a change in CABundle (via secret), patching MutatingWebhookConfiguration again'',
            Patch ''istio-sidecar-injector'' ''sidecar-injector.istio.io'' bundle_X None])"
  using send_completes_iff_selecting
      [where sys = busy_with_file and fl = default_flags
        and e = "world 5 (Inr bundle_X) None" and c = WatcherEvent]
  by (simp add: concrete_defs busy_with_file_def)

subsection \<open>C10: the bundle held after a file event\<close>

text \<open>
  Claim C10: a file event whose read succeeds makes the bytes read the bundle held and
  patches with them. From then on, through any passes in which no file is read with
  success, the bundle held stays those bytes whether the patch calls fail or not, and each
  pass on the timer or on a request makes one patch call with them. In the state reached,
  the callback compares the entries of an update with those bytes: it sends exactly when
  the resource version differs and some entry with the target name carries a bundle other
  than the bytes read, and it does nothing when every such entry carries them.
\<close>

theorem held_bundle_is_last_read:
  assumes "ReadFile e (caCertFile fl) = Inr b"
    and "\<forall>ec\<in>set evs. snd ec = WatcherEvent \<longrightarrow> isl (ReadFile (fst ec) (caCertFile fl))"
  shows "caCertPem (fst (case_watcher_Event fl e s)) = b
     \<and> patch_calls (snd (case_watcher_Event fl e s)) =
         [(b, PatchMutatingWebhookConfig e (webhookConfigName fl) (webhookName fl) b)]
     \<and> caCertPem (fst (run fl evs (fst (case_watcher_Event fl e s)))) = b
     \<and> map fst (patch_calls (snd (run fl evs (fst (case_watcher_Event fl e s))))) =
         replicate (length (filter (\<lambda>ec. snd ec \<noteq> WatcherEvent) evs)) b
     \<and> (SendShouldPatch \<in> set (UpdateFunc fl (fst (run fl evs (fst (case_watcher_Event fl e s))))
            oldConfig newConfig)) =
         (ResourceVersion oldConfig \<noteq> ResourceVersion newConfig \<and>
          (\<exists>w\<in>set (Webhooks newConfig).
              Name w = webhookName fl \<and> CABundle (ClientConfig w) \<noteq> b))
     \<and> ((\<forall>w\<in>set (Webhooks newConfig).
              Name w = webhookName fl \<longrightarrow> CABundle (ClientConfig w) = b)
          \<longrightarrow> UpdateFunc fl (fst (run fl evs (fst (case_watcher_Event fl e s))))
                oldConfig newConfig = [])"
proof -
  let ?s1 = "fst (case_watcher_Event fl e s)"
  let ?s2 = "fst (run fl evs ?s1)"
  have a: "caCertPem ?s1 = b"
    using assms(1) by (simp add: held_watcher_Event)
  have c: "patch_calls (snd (case_watcher_Event fl e s)) =
         [(b, PatchMutatingWebhookConfig e (webhookConfigName fl) (webhookName fl) b)]"
    using assms(1) by (simp add: calls_watcher_Event)
  note r = run_without_new_content [OF assms(2), of ?s1]
  have h: "caCertPem ?s2 = b"
    using a r by simp
  have calls: "map fst (patch_calls (snd (run fl evs ?s1))) =
         replicate (length (filter (\<lambda>ec. snd ec \<noteq> WatcherEvent) evs)) b"
    using a r by simp
  have sends: "(SendShouldPatch \<in> set (UpdateFunc fl ?s2 oldConfig newConfig)) =
         (ResourceVersion oldConfig \<noteq> ResourceVersion newConfig \<and>
          (\<exists>w\<in>set (Webhooks newConfig).
              Name w = webhookName fl \<and> CABundle (ClientConfig w) \<noteq> b))"
    using h by (simp add: UpdateFunc_def range_Webhooks_sends)
  have quiet: "(\<forall>w\<in>set (Webhooks newConfig).
              Name w = webhookName fl \<longrightarrow> CABundle (ClientConfig w) = b)
          \<longrightarrow> UpdateFunc fl ?s2 oldConfig newConfig = []"
    using h by (simp add: UpdateFunc_def range_Webhooks_empty)
  show ?thesis
    using a c h calls sends quiet by blast
qed

text \<open>
  Claim C10 at concrete inputs: the loop held \<open>bundle_X\<close>, the file event reads
  \<open>bundle_Z\<close> and its patch call fails; the retry on the timer and the later request both
  patch with \<open>bundle_Z\<close>. In the state reached, an update whose entry still carries
  \<open>bundle_X\<close>, the bytes patched before, makes the callback send, and an update whose
  entry carries \<open>bundle_Z\<close> makes it do nothing.
\<close>

theorem held_bundle_is_last_read_witness:
  "ReadFile (world 5 (Inr bundle_Z) forbidden) (caCertFile default_flags) = Inr bundle_Z
   \<and> fst (case_watcher_Event default_flags (world 5 (Inr bundle_Z) forbidden)
        \<lparr>caCertPem = bundle_X, delayedRetryC = None\<rparr>) = held_after_refusal
   \<and> patch_calls (snd (run default_flags
       [(world 1000000005 (Inr bundle_Z) forbidden, DelayedRetryC),
        (world 1000000006 (Inl (Error ''no such file or directory'')) None, WatcherEvent),
        (world 1000000007 (Inr bundle_Z) None, ShouldPatch)]
       held_after_refusal)) = [(bundle_Z, forbidden), (bundle_Z, None)]
   \<and> SendShouldPatch \<in> set (UpdateFunc default_flags
       (fst (run default_flags
       [(world 1000000005 (Inr bundle_Z) forbidden, DelayedRetryC),
        (world 1000000006 (Inl (Error ''no such file or directory'')) None, WatcherEvent),
        (world 1000000007 (Inr bundle_Z) None, ShouldPatch)]
       held_after_refusal))
       (config_with ''1'' bundle_X) (config_with ''2'' bundle_X))
   \<and> UpdateFunc default_flags
       (fst (run default_flags
       [(world 1000000005 (Inr bundle_Z) forbidden, DelayedRetryC),
        (world 1000000006 (Inl (Error ''no such file or directory'')) None, WatcherEvent),
        (world 1000000007 (Inr bundle_Z) None, ShouldPatch)]
       held_after_refusal))
       (config_with ''2'' bundle_X) (config_with ''3'' bundle_Z) = []"
  using held_bundle_is_last_read
      [where e = "world 5 (Inr bundle_Z) forbidden" and fl = default_flags and b = bundle_Z
        and evs = "[(world 1000000005 (Inr bundle_Z) forbidden, DelayedRetryC),
          (world 1000000006 (Inl (Error ''no such file or directory'')) None, WatcherEvent),
          (world 1000000007 (Inr bundle_Z) None, ShouldPatch)]"
        and s = "\<lparr>caCertPem = bundle_X, delayedRetryC = None\<rparr>"
        and oldConfig = "config_with ''1'' bundle_X" and newConfig = "config_with ''2'' bundle_X"]
    held_bundle_is_last_read
      [where e = "world 5 (Inr bundle_Z) forbidden" and fl = default_flags and b = bundle_Z
        and evs = "[(world 1000000005 (Inr bundle_Z) forbidden, DelayedRetryC),
          (world 1000000006 (Inl (Error ''no such file or directory'')) None, WatcherEvent),
          (world 1000000007 (Inr bundle_Z) None, ShouldPatch)]"
        and s = "\<lparr>caCertPem = bundle_X, delayedRetryC = None\<rparr>"
        and oldConfig = "config_with ''2'' bundle_X" and newConfig = "config_with ''3'' bundle_Z"]
  by (simp add: concrete_defs)

end
